theory Spec2Isabelle
  imports Main "HOL-Library.Word"
begin

section \<open>The shared region (include/shared_memory_json.hpp)\<close>

text \<open>
  The header struct at the start of the mapping. The fixed-width fields are machine
  words, so \<open>sequence_number + 1\<close> wraps as \<open>uint64_t\<close> does.
\<close>

record SharedMemoryHeader =
  magic_number :: "32 word"
  version :: "32 word"
  data_size :: "64 word"
  sequence_number :: "64 word"
  timestamp :: "64 word"
  padding :: string

definition MAGIC_NUMBER :: "32 word" where
  "MAGIC_NUMBER = 0x534D4A53"

definition PROTOCOL_VERSION :: "32 word" where
  "PROTOCOL_VERSION = 1"

text \<open>\<open>sizeof(SharedMemoryHeader)\<close>: 4 + 4 + 8 + 8 + 8 + 32 bytes, a \<open>size_t\<close>.\<close>

definition HEADER_SIZE :: "64 word" where
  "HEADER_SIZE = 64"

text \<open>
  The private fields of a \<open>SharedMemoryJSON\<close> object, named as in the source
  without the trailing underscore (\<open>region_name\<close> is \<open>name_\<close>). \<open>size_t\<close> is 64 bits
  wide. \<open>sem\<close>, \<open>shm_fd\<close> and \<open>mapped_ptr\<close> refer to objects of the operating system;
  they are indices into the tables of \<open>posix\<close> below.
\<close>

record SharedMemoryJSON =
  region_name :: string
  max_data_size :: "64 word"
  total_size :: "64 word"
  is_creator :: bool
  last_error :: string
  shm_fd :: nat
  sem :: nat
  mapped_ptr :: nat

text \<open>
  What the methods of one object touch outside the object: the value of the named
  semaphore behind \<open>sem\<close>, the header struct at \<open>mapped_ptr\<close>, the mapped bytes from
  \<open>mapped_ptr + HEADER_SIZE\<close> on, and the steady clock, in milliseconds.
\<close>

record env =
  sem_value :: nat
  header :: SharedMemoryHeader
  payload :: string
  steady_ms :: nat

text \<open>
  A method either returns, or it never returns: \<open>sem_wait\<close> on a semaphore whose value
  is 0 blocks (nothing else runs in this sequential model), and an access outside the
  mapped pages, like the overflow of a signed count, is undefined behaviour (a fault).
\<close>

datatype abort = Blocked | Fault

subsection \<open>lock and unlock (lines 354-360)\<close>

definition lock :: "env \<Rightarrow> abort + env" where
  "lock w = (if sem_value w = 0 then Inl Blocked else Inr (w\<lparr>sem_value := sem_value w - 1\<rparr>))"

definition unlock :: "env \<Rightarrow> env" where
  "unlock w = w\<lparr>sem_value := Suc (sem_value w)\<rparr>"

subsection \<open>write (lines 72-104)\<close>

text \<open>
  The JSON library is not part of the repository, so \<open>json::dump\<close> and \<open>json::parse\<close>
  are parameters: \<open>Inr\<close> is the value returned, \<open>Inl\<close> carries \<open>what()\<close> of the
  exception thrown. \<open>now_us\<close> is what \<open>getCurrentTimestamp()\<close> returns during the call.

  \<open>write_catch\<close> is the handler of lines 99-103. Both \<open>throw\<close>s of the \<open>try\<close> block
  (an exception of \<open>dump\<close>, line 74, and the size check, line 77) stand before
  \<open>lock()\<close> of line 80, so the handler runs \<open>unlock()\<close> on a semaphore this call has
  not waited on.
\<close>

definition write_catch :: "string \<Rightarrow> SharedMemoryJSON \<Rightarrow> env \<Rightarrow> abort + (bool \<times> SharedMemoryJSON \<times> env)" where
  "write_catch what obj w = Inr (False, obj\<lparr>last_error := what\<rparr>, unlock w)"

definition write_json ::
  "('j \<Rightarrow> string + string) \<Rightarrow> 64 word \<Rightarrow> 'j \<Rightarrow> SharedMemoryJSON \<Rightarrow> env
    \<Rightarrow> abort + (bool \<times> SharedMemoryJSON \<times> env)" where
  "write_json dump now_us data obj w =
     (case dump data of
        Inl what \<Rightarrow> write_catch what obj w
      | Inr serialized \<Rightarrow>
          if length serialized > unat (max_data_size obj)
          then write_catch ''JSON data too large for shared memory region'' obj w
          else
            (case lock w of
               Inl a \<Rightarrow> Inl a
             | Inr w1 \<Rightarrow>
                 if length serialized > length (payload w1) then Inl Fault
                 else Inr (True, obj,
                   unlock (w1\<lparr>header := (header w1)
                       \<lparr>magic_number := MAGIC_NUMBER,
                        version := PROTOCOL_VERSION,
                        data_size := of_nat (length serialized),
                        sequence_number := sequence_number (header w1) + 1,
                        timestamp := now_us\<rparr>,
                     payload := serialized @ drop (length serialized) (payload w1)\<rparr>))))"

subsection \<open>read (lines 111-151)\<close>

text \<open>
  \<open>data\<close> is the output parameter: a failed read returns it as it was. Copying
  \<open>data_size\<close> bytes from a mapping that ends before them is a fault.
\<close>

definition read ::
  "(string \<Rightarrow> string + 'j) \<Rightarrow> 'j \<Rightarrow> SharedMemoryJSON \<Rightarrow> env
    \<Rightarrow> abort + (bool \<times> 'j \<times> SharedMemoryJSON \<times> env)" where
  "read parse data obj w =
     (case lock w of
        Inl a \<Rightarrow> Inl a
      | Inr w1 \<Rightarrow>
          if magic_number (header w1) \<noteq> MAGIC_NUMBER
          then Inr (False, data,
                 obj\<lparr>last_error := ''Invalid magic number - shared memory not initialized''\<rparr>,
                 unlock w1)
          else if version (header w1) \<noteq> PROTOCOL_VERSION
          then Inr (False, data, obj\<lparr>last_error := ''Protocol version mismatch''\<rparr>, unlock w1)
          else if data_size (header w1) = 0
          then Inr (False, data, obj\<lparr>last_error := ''No data in shared memory''\<rparr>, unlock w1)
          else if unat (data_size (header w1)) > length (payload w1) then Inl Fault
          else
            (case parse (take (unat (data_size (header w1))) (payload w1)) of
               Inl what \<Rightarrow> Inr (False, data, obj\<lparr>last_error := what\<rparr>, unlock w1)
             | Inr v \<Rightarrow> Inr (True, v, obj, unlock w1)))"

subsection \<open>readWithTimeout (lines 163-190)\<close>

text \<open>
  \<open>sleep_for\<close> returns no earlier than asked: a sleep that starts at time \<open>t\<close> of the
  steady clock takes \<open>ms + late t\<close> milliseconds. Every other statement takes no time.

  \<open>elapsed\<close> is the signed 64-bit count of the milliseconds since \<open>start\<close>. A count
  of \<open>2 ^ 63\<close> or more does not fit (the overflow is undefined: a fault). The
  comparison with the unsigned \<open>timeout_ms\<close> converts \<open>elapsed\<close> to \<open>uint64_t\<close>, so a
  timeout of \<open>2 ^ 63\<close> or more is never reached.
\<close>

definition sleep_for :: "(nat \<Rightarrow> nat) \<Rightarrow> nat \<Rightarrow> env \<Rightarrow> env" where
  "sleep_for late ms w = w\<lparr>steady_ms := steady_ms w + ms + late (steady_ms w)\<rparr>"

function readWithTimeout_loop ::
  "(nat \<Rightarrow> nat) \<Rightarrow> (string \<Rightarrow> string + 'j) \<Rightarrow> 'j \<Rightarrow> 64 word \<Rightarrow> 64 word \<Rightarrow> nat
    \<Rightarrow> SharedMemoryJSON \<Rightarrow> env \<Rightarrow> abort + (bool \<times> 'j \<times> SharedMemoryJSON \<times> env)" where
  "readWithTimeout_loop late parse data timeout_ms last_seq start obj w =
     (case lock w of
        Inl a \<Rightarrow> Inl a
      | Inr w1 \<Rightarrow>
          if magic_number (header w1) = MAGIC_NUMBER
             \<and> data_size (header w1) > 0
             \<and> sequence_number (header w1) > last_seq
          then read parse data obj (unlock w1)
          else
            (let w2 = unlock w1;
                 elapsed = steady_ms w2 - start
             in if 2 ^ 63 \<le> elapsed then Inl Fault
                else if (of_nat elapsed :: 64 word) \<ge> timeout_ms
                then Inr (False, data, obj\<lparr>last_error := ''Timeout waiting for new data''\<rparr>, w2)
                else readWithTimeout_loop late parse data timeout_ms last_seq start obj
                       (sleep_for late 10 w2)))"
  by pat_completeness auto
termination
  by (relation "measure (\<lambda>(late, parse, data, timeout_ms, last_seq, start, obj, w).
        start + 2 ^ 63 - steady_ms w)")
     (auto simp: lock_def unlock_def sleep_for_def split: if_splits)

declare readWithTimeout_loop.simps [simp del]

definition readWithTimeout ::
  "(nat \<Rightarrow> nat) \<Rightarrow> (string \<Rightarrow> string + 'j) \<Rightarrow> 'j \<Rightarrow> 64 word \<Rightarrow> 64 word
    \<Rightarrow> SharedMemoryJSON \<Rightarrow> env \<Rightarrow> abort + (bool \<times> 'j \<times> SharedMemoryJSON \<times> env)" where
  "readWithTimeout late parse data timeout_ms last_seq obj w =
     readWithTimeout_loop late parse data timeout_ms last_seq (steady_ms w) obj w"

subsection \<open>getSequenceNumber (lines 195-201)\<close>

definition getSequenceNumber :: "env \<Rightarrow> abort + (64 word \<times> env)" where
  "getSequenceNumber w =
     (case lock w of
        Inl a \<Rightarrow> Inl a
      | Inr w1 \<Rightarrow> Inr (sequence_number (header w1), unlock w1))"

text \<open>
  The writer's loop of the examples and of \<open>test_overwrite\<close>: \<open>n\<close> calls of \<open>write\<close> with
  the same value, one after the other, stopping at the first that does not succeed.
\<close>

fun write_times ::
  "nat \<Rightarrow> ('j \<Rightarrow> string + string) \<Rightarrow> 64 word \<Rightarrow> 'j \<Rightarrow> SharedMemoryJSON \<Rightarrow> env
    \<Rightarrow> abort + (bool \<times> SharedMemoryJSON \<times> env)" where
  "write_times 0 dump now_us data obj w = Inr (True, obj, w)"
| "write_times (Suc n) dump now_us data obj w =
     (case write_json dump now_us data obj w of
        Inr (True, obj', w') \<Rightarrow> write_times n dump now_us data obj' w'
      | r \<Rightarrow> r)"

section \<open>Construction: named semaphores and shared memory objects (lines 46-57, 303-352)\<close>

text \<open>
  The operating system's side of \<open>initPosix\<close>, as Linux with glibc has it.
  Semaphores and shared memory objects live in two tables and are never removed from
  them: unlinking a name removes the name only, and an object stays usable by whoever
  has it open or mapped. A descriptor or pointer is the object's index in its table. A
  shared memory object is its bytes. Every object belongs to the calling user.

  The calls fail for a name the system refuses, a name that exists or does not exist,
  an index that is no object, a negative length (\<open>off_t\<close> is signed), a mapping of length
  0 and a mapping longer than the address space has room for (\<open>mmap_max\<close>). Failures
  for lack of descriptors or of memory behind the pages are not modelled.
\<close>

datatype errno = EEXIST | ENOENT | EINVAL | EBADF | ENAMETOOLONG | ENOMEM

fun strerror :: "errno \<Rightarrow> string" where
  "strerror EEXIST = ''File exists''"
| "strerror ENOENT = ''No such file or directory''"
| "strerror EINVAL = ''Invalid argument''"
| "strerror EBADF = ''Bad file descriptor''"
| "strerror ENAMETOOLONG = ''File name too long''"
| "strerror ENOMEM = ''Cannot allocate memory''"

record posix =
  sem_names :: "string \<rightharpoonup> nat"
  sems :: "nat list"
  shm_names :: "string \<rightharpoonup> nat"
  shms :: "string list"
  mmap_max :: nat
  steady_clock :: nat

text \<open>\<open>std::string::c_str()\<close>: the callee reads up to the first NUL.\<close>

definition c_str :: "string \<Rightarrow> string" where
  "c_str s = takeWhile (\<lambda>c. c \<noteq> CHR 0x00) s"

text \<open>
  The name of an object is what follows the leading slashes. It is refused
  (\<open>EINVAL\<close>) when it is empty or has a slash in it, and (\<open>ENAMETOOLONG\<close>) when it has more
  than \<open>limit\<close> characters: \<open>NAME_MAX\<close> for a shared memory object, \<open>NAME_MAX - 4\<close> for a
  semaphore. The tables are keyed by the object's name.
\<close>

definition NAME_MAX :: nat where
  "NAME_MAX = 255"

definition object_name :: "string \<Rightarrow> string" where
  "object_name nm = dropWhile (\<lambda>c. c = CHR ''/'') nm"

definition name_error :: "nat \<Rightarrow> string \<Rightarrow> errno option" where
  "name_error limit nm =
     (if limit < length (object_name nm) then Some ENAMETOOLONG
      else if object_name nm = [] \<or> CHR ''/'' \<in> set (object_name nm) then Some EINVAL
      else None)"

definition sem_unlink :: "string \<Rightarrow> posix \<Rightarrow> posix" where
  "sem_unlink nm os =
     (case name_error (NAME_MAX - 4) nm of
        Some e \<Rightarrow> os
      | None \<Rightarrow> os\<lparr>sem_names := (sem_names os)(object_name nm := None)\<rparr>)"

text \<open>\<open>sem_open(name, O_CREAT | O_EXCL, 0666, value)\<close>\<close>

definition sem_open_excl :: "string \<Rightarrow> nat \<Rightarrow> posix \<Rightarrow> errno + (nat \<times> posix)" where
  "sem_open_excl nm v os =
     (case name_error (NAME_MAX - 4) nm of
        Some e \<Rightarrow> Inl e
      | None \<Rightarrow>
          (case sem_names os (object_name nm) of
             Some i \<Rightarrow> Inl EEXIST
           | None \<Rightarrow>
               Inr (length (sems os),
                    os\<lparr>sems := sems os @ [v],
                       sem_names := (sem_names os)(object_name nm \<mapsto> length (sems os))\<rparr>)))"

text \<open>\<open>sem_open(name, 0)\<close>\<close>

definition sem_open :: "string \<Rightarrow> posix \<Rightarrow> errno + (nat \<times> posix)" where
  "sem_open nm os =
     (case name_error (NAME_MAX - 4) nm of
        Some e \<Rightarrow> Inl e
      | None \<Rightarrow>
          (case sem_names os (object_name nm) of None \<Rightarrow> Inl ENOENT | Some i \<Rightarrow> Inr (i, os)))"

definition shm_unlink :: "string \<Rightarrow> posix \<Rightarrow> posix" where
  "shm_unlink nm os =
     (case name_error NAME_MAX nm of
        Some e \<Rightarrow> os
      | None \<Rightarrow> os\<lparr>shm_names := (shm_names os)(object_name nm := None)\<rparr>)"

text \<open>\<open>shm_open(name, O_CREAT | O_RDWR, 0666)\<close>: a new object has length 0.\<close>

definition shm_open_creat :: "string \<Rightarrow> posix \<Rightarrow> errno + (nat \<times> posix)" where
  "shm_open_creat nm os =
     (case name_error NAME_MAX nm of
        Some e \<Rightarrow> Inl e
      | None \<Rightarrow>
          (case shm_names os (object_name nm) of
             Some i \<Rightarrow> Inr (i, os)
           | None \<Rightarrow>
               Inr (length (shms os),
                    os\<lparr>shms := shms os @ [[]],
                       shm_names := (shm_names os)(object_name nm \<mapsto> length (shms os))\<rparr>)))"

text \<open>\<open>shm_open(name, O_RDWR, 0666)\<close>\<close>

definition shm_open :: "string \<Rightarrow> posix \<Rightarrow> errno + (nat \<times> posix)" where
  "shm_open nm os =
     (case name_error NAME_MAX nm of
        Some e \<Rightarrow> Inl e
      | None \<Rightarrow>
          (case shm_names os (object_name nm) of None \<Rightarrow> Inl ENOENT | Some i \<Rightarrow> Inr (i, os)))"

text \<open>
  \<open>ftruncate(fd, length)\<close>: the \<open>size_t\<close> argument is read as the signed \<open>off_t\<close>. The
  object is cut, or extended with zero bytes, to the length.
\<close>

definition ftruncate :: "nat \<Rightarrow> 64 word \<Rightarrow> posix \<Rightarrow> errno + posix" where
  "ftruncate fd len os =
     (if fd \<ge> length (shms os) then Inl EBADF
      else if sint len < 0 then Inl EINVAL
      else Inr (os\<lparr>shms := (shms os)
             [fd := take (unat len) (shms os ! fd)
                    @ replicate (unat len - length (shms os ! fd)) (CHR 0x00)]\<rparr>))"

text \<open>
  Memory is mapped in pages of \<open>PAGE_SIZE\<close> bytes: \<open>page_up n\<close> is \<open>n\<close> rounded up to whole
  pages.
\<close>

definition PAGE_SIZE :: nat where
  "PAGE_SIZE = 4096"

definition page_up :: "nat \<Rightarrow> nat" where
  "page_up n = ((n + PAGE_SIZE - 1) div PAGE_SIZE) * PAGE_SIZE"

text \<open>\<open>mmap(nullptr, length, PROT_READ | PROT_WRITE, MAP_SHARED, fd, 0)\<close>: the pointer
  returned stands for the object itself.\<close>

definition mmap :: "64 word \<Rightarrow> nat \<Rightarrow> posix \<Rightarrow> errno + nat" where
  "mmap len fd os =
     (if fd \<ge> length (shms os) then Inl EBADF
      else if len = 0 then Inl EINVAL
      else if mmap_max os < page_up (unat len) then Inl ENOMEM
      else Inr fd)"

text \<open>\<open>memset(ptr, c, n)\<close> on a mapping: the first \<open>n\<close> bytes of the object. On the path of
  \<open>initPosix\<close> that calls it, \<open>ftruncate\<close> has given the object \<open>n\<close> bytes.\<close>

definition memset :: "nat \<Rightarrow> char \<Rightarrow> nat \<Rightarrow> posix \<Rightarrow> posix" where
  "memset p c n os =
     os\<lparr>shms := (shms os)[p := replicate (min n (length (shms os ! p))) c @ drop n (shms os ! p)]\<rparr>"

text \<open>
  \<open>initPosix\<close>: \<open>Inl\<close> carries the message of the \<open>std::runtime_error\<close> thrown. The
  results of \<open>sem_unlink\<close> and \<open>shm_unlink\<close> are ignored, as in the source. The names go
  to the system calls through \<open>c_str()\<close>.
\<close>

definition initPosix :: "bool \<Rightarrow> SharedMemoryJSON \<Rightarrow> posix \<Rightarrow> (string + SharedMemoryJSON) \<times> posix" where
  "initPosix create obj os =
     (let sem_name = c_str (''/sem_'' @ region_name obj);
          shm_name = c_str (''/'' @ region_name obj);
          os0 = (if create then sem_unlink sem_name os else os)
      in case (if create then sem_open_excl sem_name 1 os0 else sem_open sem_name os0) of
           Inl e \<Rightarrow> (Inl (''Failed to create/open semaphore: '' @ strerror e), os0)
         | Inr (s, os1) \<Rightarrow>
             (let os2 = (if create then shm_unlink shm_name os1 else os1)
              in case (if create then shm_open_creat shm_name os2 else shm_open shm_name os2) of
                   Inl e \<Rightarrow>
                     (Inl ((if create then ''Failed to create shared memory: ''
                            else ''Failed to open shared memory: '') @ strerror e), os2)
                 | Inr (fd, os3) \<Rightarrow>
                     (case (if create then ftruncate fd (total_size obj) os3 else Inr os3) of
                        Inl e \<Rightarrow> (Inl (''Failed to set shared memory size: '' @ strerror e), os3)
                      | Inr os4 \<Rightarrow>
                          (case mmap (total_size obj) fd os4 of
                             Inl e \<Rightarrow> (Inl (''Failed to map shared memory: '' @ strerror e), os4)
                           | Inr p \<Rightarrow>
                               (Inr (obj\<lparr>sem := s, shm_fd := fd, mapped_ptr := p\<rparr>),
                                if create then memset p (CHR 0x00) (unat (total_size obj)) os4
                                else os4)))))"

text \<open>The constructor (lines 46-57); the three handles are set by \<open>initPosix\<close>.\<close>

definition SharedMemoryJSON_new ::
  "string \<Rightarrow> 64 word \<Rightarrow> bool \<Rightarrow> posix \<Rightarrow> (string + SharedMemoryJSON) \<times> posix" where
  "SharedMemoryJSON_new name max_size create os =
     initPosix create
       \<lparr>region_name = name, max_data_size = max_size, total_size = HEADER_SIZE + max_size,
        is_creator = create, last_error = [], shm_fd = 0, sem = 0, mapped_ptr = 0\<rparr> os"

text \<open>
  The keys under which the tables hold the semaphore and the memory object of a region,
  and the region names whose two object names the system accepts.
\<close>

definition sem_key :: "string \<Rightarrow> string" where
  "sem_key name = object_name (c_str (''/sem_'' @ name))"

definition shm_key :: "string \<Rightarrow> string" where
  "shm_key name = object_name (c_str (''/'' @ name))"

definition names_ok :: "string \<Rightarrow> bool" where
  "names_ok name \<longleftrightarrow>
     name_error (NAME_MAX - 4) (c_str (''/sem_'' @ name)) = None
     \<and> name_error NAME_MAX (c_str (''/'' @ name)) = None"

subsection \<open>The object's view of the operating system\<close>

text \<open>
  \<open>reinterpret_cast<SharedMemoryHeader*>(mapped_ptr_)\<close>: the header's fields are read
  from the first 64 bytes of the mapping, least significant byte first, and the payload
  area is what follows them. The mapping is made of whole pages: it reaches to the end
  of the last page of the \<open>total_size_\<close> bytes asked for, and no further than the last
  page of the object, whose bytes past the end of the object read as zero.
\<close>

definition pages :: "string \<Rightarrow> string" where
  "pages b = b @ replicate (page_up (length b) - length b) (CHR 0x00)"

fun le_nat :: "string \<Rightarrow> nat" where
  "le_nat [] = 0"
| "le_nat (b # bs) = of_char b + 256 * le_nat bs"

definition header_at :: "string \<Rightarrow> SharedMemoryHeader" where
  "header_at b =
     \<lparr>magic_number = of_nat (le_nat (take 4 b)),
      version = of_nat (le_nat (take 4 (drop 4 b))),
      data_size = of_nat (le_nat (take 8 (drop 8 b))),
      sequence_number = of_nat (le_nat (take 8 (drop 16 b))),
      timestamp = of_nat (le_nat (take 8 (drop 24 b))),
      padding = take 32 (drop 32 b)\<rparr>"

definition mapped :: "SharedMemoryJSON \<Rightarrow> posix \<Rightarrow> env" where
  "mapped obj os =
     \<lparr>sem_value = sems os ! sem obj,
      header = header_at (pages (shms os ! mapped_ptr obj)),
      payload = drop (unat HEADER_SIZE)
                  (take (page_up (unat (total_size obj))) (pages (shms os ! mapped_ptr obj))),
      steady_ms = steady_clock os\<rparr>"

section \<open>A fragment of JSON for concrete runs\<close>

text \<open>
  The three literal names of JSON, with the text \<open>dump()\<close> gives them and a parser
  that accepts exactly these texts.
\<close>

datatype json = null | boolean bool

fun dump_literal :: "json \<Rightarrow> string + string" where
  "dump_literal null = Inr ''null''"
| "dump_literal (boolean True) = Inr ''true''"
| "dump_literal (boolean False) = Inr ''false''"

definition parse_literal :: "string \<Rightarrow> string + json" where
  "parse_literal s =
     (if s = ''null'' then Inr null
      else if s = ''true'' then Inr (boolean True)
      else if s = ''false'' then Inr (boolean False)
      else Inl ''parse error'')"

text \<open>The machine before any region exists; its processes have 47 bits of address space.\<close>

definition boot :: posix where
  "boot = \<lparr>sem_names = Map.empty, sems = [], shm_names = Map.empty, shms = [],
           mmap_max = 2 ^ 47, steady_clock = 0\<rparr>"

text \<open>
  The region of the examples below: the owner creates \<open>R\<close> with a capacity of 4 bytes
  on the machine where nothing exists yet. \<open>R_os\<close> is the machine afterwards and
  \<open>R_env\<close> is what the owner's object sees of it.
\<close>

definition R_obj :: SharedMemoryJSON where
  "R_obj = projr (fst (SharedMemoryJSON_new ''R'' 4 True boot))"

definition R_os :: posix where
  "R_os = snd (SharedMemoryJSON_new ''R'' 4 True boot)"

definition R_env :: env where
  "R_env = mapped R_obj R_os"

text \<open>Every sleep returns exactly on time.\<close>

definition on_time :: "nat \<Rightarrow> nat" where
  "on_time t = 0"

text \<open>Every sleep returns 2 milliseconds late.\<close>

definition late_by_2 :: "nat \<Rightarrow> nat" where
  "late_by_2 t = 2"

text \<open>\<open>R\<close> after the owner has written \<open>true\<close> at time 7 of the system clock.\<close>

definition R_true :: env where
  "R_true = snd (snd (projr (write_json dump_literal 7 (boolean True) R_obj R_env)))"

text \<open>\<open>R\<close> after the owner has written \<open>null\<close> \<open>2 ^ 64\<close> times.\<close>

definition R_wrapped :: env where
  "R_wrapped = snd (snd (projr (write_times (2 ^ 64) dump_literal 7 null R_obj R_env)))"

text \<open>
  The machine on which \<open>R\<close> is in use: the bytes of the object \<open>/R\<close> are the header
  after two writes (magic \<open>SMJS\<close>, version 1, data_size 4, sequence_number 2,
  timestamp 9) and the payload \<open>null\<close>.
\<close>

definition R_busy :: posix where
  "R_busy = R_os\<lparr>shms :=
     [[CHR 0x53, CHR 0x4A, CHR 0x4D, CHR 0x53, CHR 0x01, CHR 0x00, CHR 0x00, CHR 0x00,
       CHR 0x04, CHR 0x00, CHR 0x00, CHR 0x00, CHR 0x00, CHR 0x00, CHR 0x00, CHR 0x00,
       CHR 0x02, CHR 0x00, CHR 0x00, CHR 0x00, CHR 0x00, CHR 0x00, CHR 0x00, CHR 0x00,
       CHR 0x09, CHR 0x00, CHR 0x00, CHR 0x00, CHR 0x00, CHR 0x00, CHR 0x00, CHR 0x00]
      @ replicate 32 (CHR 0x00) @ ''null'']\<rparr>"



section \<open>Observations\<close>

text \<open>
  What the caller of a reading operation gets back: the flag returned, the value in
  \<open>data\<close>, and the object with its \<open>last_error_\<close>.
\<close>

definition returned ::
  "abort + (bool \<times> 'j \<times> SharedMemoryJSON \<times> env) \<Rightarrow> abort + (bool \<times> 'j \<times> SharedMemoryJSON)" where
  "returned r = map_sum id (\<lambda>(ok, v, obj, w). (ok, v, obj)) r"

text \<open>The same region with another value in the \<open>timestamp\<close> field.\<close>

definition with_timestamp :: "64 word \<Rightarrow> env \<Rightarrow> env" where
  "with_timestamp t w = w\<lparr>header := (header w)\<lparr>timestamp := t\<rparr>\<rparr>"

section \<open>Basic facts\<close>

lemma lock_Inr: "0 < sem_value w \<Longrightarrow> lock w = Inr (w\<lparr>sem_value := sem_value w - 1\<rparr>)"
  by (simp add: lock_def)

lemma lock_cases:
  "lock w = Inr w1 \<Longrightarrow>
     0 < sem_value w \<and> unlock w1 = w \<and> header w1 = header w \<and> payload w1 = payload w"
  by (auto simp add: lock_def unlock_def split: if_splits)

lemma sleep_for_simps [simp]:
  "header (sleep_for late ms w) = header w"
  "payload (sleep_for late ms w) = payload w"
  "sem_value (sleep_for late ms w) = sem_value w"
  "steady_ms (sleep_for late ms w) = steady_ms w + ms + late (steady_ms w)"
  by (simp_all add: sleep_for_def)

text \<open>A length within \<open>max_data_size_\<close> is stored in \<open>data_size\<close> without truncation.\<close>

lemma unat_length_fits:
  "length s \<le> unat (m :: 64 word) \<Longrightarrow> unat (of_nat (length s) :: 64 word) = length s"
  by (metis le_unat_uoi)

text \<open>The successful path of \<open>write\<close>, in one equation.\<close>

lemma write_json_ok:
  assumes "dump V = Inr s" "length s \<le> unat (max_data_size obj)"
    and "length s \<le> length (payload w)" "0 < sem_value w"
  shows "write_json dump now V obj w =
     Inr (True, obj,
          w\<lparr>header := (header w)
                \<lparr>magic_number := MAGIC_NUMBER,
                 version := PROTOCOL_VERSION,
                 data_size := of_nat (length s),
                 sequence_number := sequence_number (header w) + 1,
                 timestamp := now\<rparr>,
            payload := s @ drop (length s) (payload w)\<rparr>)"
  using assms by (simp add: write_json_def lock_def unlock_def)

subsection \<open>The created region\<close>

lemma le_nat_zeros: "le_nat (replicate n (CHR 0x00)) = 0"
  by (induction n) simp_all

lemma header_at_zeros:
  "header_at (replicate n (CHR 0x00)) =
     \<lparr>magic_number = 0, version = 0, data_size = 0, sequence_number = 0, timestamp = 0,
      padding = replicate (min 32 (n - 32)) (CHR 0x00)\<rparr>"
  by (simp add: header_at_def le_nat_zeros min.commute)

lemma page_up_ge: "n \<le> page_up n"
proof -
  have a: "(n + 4095) div 4096 * 4096 + (n + 4095) mod 4096 = n + 4095"
    by (rule div_mult_mod_eq)
  have b: "(n + 4095) mod 4096 < 4096" by simp
  from a b show ?thesis unfolding page_up_def PAGE_SIZE_def by simp
qed

lemma page_up_pos: "0 < n \<Longrightarrow> 4096 \<le> page_up n"
proof -
  assume "0 < n"
  then have "4096 div 4096 \<le> (n + 4095) div (4096 :: nat)"
    by (intro div_le_mono) simp
  then show ?thesis unfolding page_up_def PAGE_SIZE_def by simp
qed

lemma pages_zeros: "pages (replicate n (CHR 0x00)) = replicate (page_up n) (CHR 0x00)"
  using page_up_ge[of n] by (simp add: pages_def replicate_add[symmetric])

lemma initPosix_create:
  assumes "names_ok (region_name obj)"
    and "total_size obj \<noteq> 0" "\<not> sint (total_size obj) < 0"
    and "page_up (unat (total_size obj)) \<le> mmap_max os"
  shows "initPosix True obj os =
     (Inr (obj\<lparr>sem := length (sems os), shm_fd := length (shms os), mapped_ptr := length (shms os)\<rparr>),
      os\<lparr>sem_names := (sem_names os)(sem_key (region_name obj) \<mapsto> length (sems os)),
         sems := sems os @ [1],
         shm_names := (shm_names os)(shm_key (region_name obj) \<mapsto> length (shms os)),
         shms := shms os @ [replicate (unat (total_size obj)) (CHR 0x00)]\<rparr>)"
  using assms
  by (simp add: initPosix_def sem_unlink_def sem_open_excl_def shm_unlink_def shm_open_creat_def
      ftruncate_def mmap_def memset_def Let_def names_ok_def sem_key_def shm_key_def)

lemma initPosix_create_succeeds:
  assumes "initPosix True obj os = (Inr obj', os')"
  shows "names_ok (region_name obj) \<and> total_size obj \<noteq> 0 \<and> \<not> sint (total_size obj) < 0
     \<and> page_up (unat (total_size obj)) \<le> mmap_max os"
  using assms
  by (auto simp add: initPosix_def sem_unlink_def sem_open_excl_def shm_unlink_def
      shm_open_creat_def ftruncate_def mmap_def memset_def Let_def names_ok_def
      split: if_splits sum.splits option.splits)

lemma SharedMemoryJSON_new_create:
  assumes "names_ok name"
    and "HEADER_SIZE + max_size \<noteq> 0" "\<not> sint (HEADER_SIZE + max_size) < 0"
    and "page_up (unat (HEADER_SIZE + max_size)) \<le> mmap_max os"
  shows "SharedMemoryJSON_new name max_size True os =
     (Inr \<lparr>region_name = name, max_data_size = max_size, total_size = HEADER_SIZE + max_size,
           is_creator = True, last_error = [], shm_fd = length (shms os),
           sem = length (sems os), mapped_ptr = length (shms os)\<rparr>,
      os\<lparr>sem_names := (sem_names os)(sem_key name \<mapsto> length (sems os)),
         sems := sems os @ [1],
         shm_names := (shm_names os)(shm_key name \<mapsto> length (shms os)),
         shms := shms os @ [replicate (unat (HEADER_SIZE + max_size)) (CHR 0x00)]\<rparr>)"
  using assms by (simp add: SharedMemoryJSON_new_def initPosix_create)

lemma SharedMemoryJSON_new_succeeds:
  assumes "SharedMemoryJSON_new name max_size True os = (Inr obj, os')"
  shows "names_ok name \<and> HEADER_SIZE + max_size \<noteq> 0 \<and> \<not> sint (HEADER_SIZE + max_size) < 0
     \<and> page_up (unat (HEADER_SIZE + max_size)) \<le> mmap_max os"
  using initPosix_create_succeeds[OF assms[unfolded SharedMemoryJSON_new_def]] by simp

text \<open>A construction with \<open>create = true\<close> that returns an object has done exactly this.\<close>

lemma SharedMemoryJSON_new_created:
  assumes "SharedMemoryJSON_new name max_size True os = (Inr obj, os')"
  shows "obj = \<lparr>region_name = name, max_data_size = max_size, total_size = HEADER_SIZE + max_size,
           is_creator = True, last_error = [], shm_fd = length (shms os),
           sem = length (sems os), mapped_ptr = length (shms os)\<rparr>"
    and "os' = os\<lparr>sem_names := (sem_names os)(sem_key name \<mapsto> length (sems os)),
         sems := sems os @ [1],
         shm_names := (shm_names os)(shm_key name \<mapsto> length (shms os)),
         shms := shms os @ [replicate (unat (HEADER_SIZE + max_size)) (CHR 0x00)]\<rparr>"
proof -
  note c = SharedMemoryJSON_new_succeeds[OF assms]
  note e = SharedMemoryJSON_new_create[OF c[THEN conjunct1] c[THEN conjunct2, THEN conjunct1]
        c[THEN conjunct2, THEN conjunct2, THEN conjunct1]
        c[THEN conjunct2, THEN conjunct2, THEN conjunct2]]
  show "obj = \<lparr>region_name = name, max_data_size = max_size, total_size = HEADER_SIZE + max_size,
           is_creator = True, last_error = [], shm_fd = length (shms os),
           sem = length (sems os), mapped_ptr = length (shms os)\<rparr>"
    using assms unfolding e by simp
  show "os' = os\<lparr>sem_names := (sem_names os)(sem_key name \<mapsto> length (sems os)),
         sems := sems os @ [1],
         shm_names := (shm_names os)(shm_key name \<mapsto> length (shms os)),
         shms := shms os @ [replicate (unat (HEADER_SIZE + max_size)) (CHR 0x00)]\<rparr>"
    using assms unfolding e by simp
qed

lemma R_keys: "names_ok ''R''" "sem_key ''R'' = ''sem_R''" "shm_key ''R'' = ''R''"
  by (simp_all add: names_ok_def sem_key_def shm_key_def name_error_def object_name_def c_str_def
      NAME_MAX_def)

lemma R_new:
  "SharedMemoryJSON_new ''R'' 4 True boot =
     (Inr \<lparr>region_name = ''R'', max_data_size = 4, total_size = 68,
           is_creator = True, last_error = [], shm_fd = 0, sem = 0, mapped_ptr = 0\<rparr>,
      \<lparr>sem_names = [''sem_R'' \<mapsto> 0], sems = [1], shm_names = [''R'' \<mapsto> 0],
       shms = [replicate 68 (CHR 0x00)], mmap_max = 2 ^ 47, steady_clock = 0\<rparr>)"
  by (subst SharedMemoryJSON_new_create)
     (simp_all add: R_keys HEADER_SIZE_def boot_def page_up_def PAGE_SIZE_def)

lemma R_obj_eq:
  "R_obj = \<lparr>region_name = ''R'', max_data_size = 4, total_size = 68,
           is_creator = True, last_error = [], shm_fd = 0, sem = 0, mapped_ptr = 0\<rparr>"
  by (simp add: R_obj_def R_new)

lemma R_os_eq:
  "R_os = \<lparr>sem_names = [''sem_R'' \<mapsto> 0], sems = [1], shm_names = [''R'' \<mapsto> 0],
       shms = [replicate 68 (CHR 0x00)], mmap_max = 2 ^ 47, steady_clock = 0\<rparr>"
  by (simp add: R_os_def R_new)

lemma R_env_eq:
  "R_env = \<lparr>sem_value = 1,
      header = \<lparr>magic_number = 0, version = 0, data_size = 0, sequence_number = 0,
                timestamp = 0, padding = replicate 32 (CHR 0x00)\<rparr>,
      payload = replicate 4032 (CHR 0x00), steady_ms = 0\<rparr>"
  by (simp add: R_env_def R_os_eq R_obj_eq mapped_def pages_zeros header_at_zeros HEADER_SIZE_def
      page_up_def PAGE_SIZE_def)

subsection \<open>The loop of \<open>readWithTimeout\<close>, one iteration at a time\<close>

lemma loop_blocked:
  "sem_value w = 0 \<Longrightarrow> readWithTimeout_loop late parse d T ls start obj w = Inl Blocked"
  by (subst readWithTimeout_loop.simps) (simp add: lock_def)

lemma loop_ready:
  assumes "0 < sem_value w" "magic_number (header w) = MAGIC_NUMBER"
    and "0 < data_size (header w)" "ls < sequence_number (header w)"
  shows "readWithTimeout_loop late parse d T ls start obj w = read parse d obj w"
  using assms by (subst readWithTimeout_loop.simps) (simp add: lock_def unlock_def)

lemma loop_not_ready:
  assumes "0 < sem_value w"
    and "\<not> (magic_number (header w) = MAGIC_NUMBER \<and> 0 < data_size (header w)
             \<and> ls < sequence_number (header w))"
  shows "readWithTimeout_loop late parse d T ls start obj w =
     (if 2 ^ 63 \<le> steady_ms w - start then Inl Fault
      else if T \<le> of_nat (steady_ms w - start)
      then Inr (False, d, obj\<lparr>last_error := ''Timeout waiting for new data''\<rparr>, w)
      else readWithTimeout_loop late parse d T ls start obj (sleep_for late 10 w))"
  using assms by (subst readWithTimeout_loop.simps) (auto simp add: lock_def unlock_def Let_def)

text \<open>A count below \<open>2 ^ 63\<close> is compared as the number it is.\<close>

lemma elapsed_reaches:
  "e < 2 ^ 63 \<Longrightarrow> ((T :: 64 word) \<le> of_nat e) = (unat T \<le> e)"
  by (simp add: word_le_nat_alt unat_of_nat)

lemma sleep_decreases:
  "\<not> 2 ^ 63 \<le> steady_ms w - start \<Longrightarrow>
     start + 2 ^ 63 - steady_ms (sleep_for late 10 w) < start + 2 ^ 63 - steady_ms w"
  by simp

subsection \<open>What the reading operations leave as it was\<close>

lemma read_frame:
  "read parse d obj w = Inr (ok, v, obj', w') \<Longrightarrow> w' = w"
  by (auto simp add: read_def dest!: lock_cases split: sum.splits if_splits)

lemma getSequenceNumber_frame:
  "getSequenceNumber w = Inr (n, w') \<Longrightarrow> w' = w \<and> n = sequence_number (header w)"
  by (auto simp add: getSequenceNumber_def dest!: lock_cases split: sum.splits if_splits)

lemma loop_frame:
  "readWithTimeout_loop late parse d T ls start obj w = Inr (ok, v, obj', w') \<Longrightarrow>
     header w' = header w \<and> payload w' = payload w \<and> sem_value w' = sem_value w"
proof (induction "start + 2 ^ 63 - steady_ms w" arbitrary: w rule: less_induct)
  case less
  have s: "0 < sem_value w"
    using less.prems by (cases "sem_value w = 0") (simp_all add: loop_blocked)
  show ?case
  proof (cases "magic_number (header w) = MAGIC_NUMBER \<and> 0 < data_size (header w)
             \<and> ls < sequence_number (header w)")
    case True
    then have "read parse d obj w = Inr (ok, v, obj', w')"
      using less.prems s by (simp add: loop_ready)
    then show ?thesis by (auto dest: read_frame)
  next
    case nr: False
    note eq = loop_not_ready[OF s nr, of late parse d T start obj]
    have fit: "\<not> 2 ^ 63 \<le> steady_ms w - start"
      using less.prems eq by (auto split: if_splits)
    show ?thesis
    proof (cases "T \<le> of_nat (steady_ms w - start)")
      case True
      then show ?thesis using less.prems eq fit by simp
    next
      case False
      then have "readWithTimeout_loop late parse d T ls start obj (sleep_for late 10 w)
              = Inr (ok, v, obj', w')"
        using less.prems eq fit by simp
      from less.hyps[OF sleep_decreases[OF fit] this] show ?thesis by simp
    qed
  qed
qed

subsection \<open>The paths of the operations\<close>

lemma write_json_too_large:
  assumes "dump V = Inr s" "unat (max_data_size obj) < length s"
  shows "write_json dump now V obj w =
     Inr (False, obj\<lparr>last_error := ''JSON data too large for shared memory region''\<rparr>,
          w\<lparr>sem_value := Suc (sem_value w)\<rparr>)"
  using assms by (simp add: write_json_def write_catch_def unlock_def)

lemma write_json_cases:
  assumes "write_json dump now V obj w = Inr (ok, obj', w')"
  shows "(ok \<and> obj' = obj \<and> 0 < sem_value w \<and> sem_value w' = sem_value w
          \<and> (\<exists>s. dump V = Inr s \<and> length s \<le> unat (max_data_size obj) \<and> length s \<le> length (payload w)
               \<and> header w' = (header w)\<lparr>magic_number := MAGIC_NUMBER, version := PROTOCOL_VERSION,
                    data_size := of_nat (length s),
                    sequence_number := sequence_number (header w) + 1, timestamp := now\<rparr>
               \<and> payload w' = s @ drop (length s) (payload w)))
       \<or> (ok = False \<and> header w' = header w \<and> payload w' = payload w
            \<and> sem_value w' = Suc (sem_value w) \<and> steady_ms w' = steady_ms w
            \<and> (\<exists>e. obj' = obj\<lparr>last_error := e\<rparr>))"
  using assms
  by (auto simp add: write_json_def write_catch_def unlock_def lock_def split: sum.splits if_splits)

lemma mapped_new:
  assumes "SharedMemoryJSON_new name max_size True os = (Inr obj, os')"
  shows "mapped obj os' =
     \<lparr>sem_value = 1,
      header = \<lparr>magic_number = 0, version = 0, data_size = 0, sequence_number = 0, timestamp = 0,
                padding = replicate 32 (CHR 0x00)\<rparr>,
      payload = replicate (page_up (unat (HEADER_SIZE + max_size)) - 64) (CHR 0x00),
      steady_ms = steady_clock os\<rparr>"
proof -
  note c = SharedMemoryJSON_new_succeeds[OF assms]
  have p: "4096 \<le> page_up (unat (HEADER_SIZE + max_size))"
    using c by (intro page_up_pos) (simp add: unat_gt_0)
  show ?thesis
    using p unfolding SharedMemoryJSON_new_created[OF assms]
    by (simp add: mapped_def pages_zeros header_at_zeros HEADER_SIZE_def)
qed

text \<open>
  When \<open>HEADER_SIZE + max_size\<close> does not wrap, the payload area of the created region
  holds the capacity of the object.
\<close>

lemma created_region_fits:
  assumes "SharedMemoryJSON_new name max_size True os = (Inr obj, os')"
    and "unat HEADER_SIZE + unat max_size < 2 ^ 64"
  shows "unat (max_data_size obj) \<le> length (payload (mapped obj os')) \<and> max_data_size obj = max_size"
proof -
  have u: "unat (64 + max_size) = 64 + unat max_size"
    using assms(2) by (simp add: unat_word_ariths HEADER_SIZE_def)
  have m: "max_data_size obj = max_size"
    unfolding SharedMemoryJSON_new_created(1)[OF assms(1)] by simp
  show ?thesis
    using page_up_ge[of "64 + unat max_size"]
    by (simp add: mapped_new[OF assms(1)] u m HEADER_SIZE_def)
qed

lemma read_uninitialized:
  assumes "magic_number (header w) \<noteq> MAGIC_NUMBER" "0 < sem_value w"
  shows "read parse d obj w =
     Inr (False, d, obj\<lparr>last_error := ''Invalid magic number - shared memory not initialized''\<rparr>, w)"
  using assms by (simp add: read_def lock_def unlock_def)

lemma SharedMemoryJSON_new_attach:
  assumes "names_ok name"
    and "sem_names os (sem_key name) = Some s" "shm_names os (shm_key name) = Some m"
    and "m < length (shms os)" "HEADER_SIZE + max_size \<noteq> 0"
    and "page_up (unat (HEADER_SIZE + max_size)) \<le> mmap_max os"
  shows "SharedMemoryJSON_new name max_size False os =
     (Inr \<lparr>region_name = name, max_data_size = max_size, total_size = HEADER_SIZE + max_size,
           is_creator = False, last_error = [], shm_fd = m, sem = s, mapped_ptr = m\<rparr>, os)"
  using assms
  by (simp add: SharedMemoryJSON_new_def initPosix_def sem_open_def shm_open_def mmap_def Let_def
      names_ok_def sem_key_def shm_key_def)

lemma SharedMemoryJSON_new_attached:
  assumes "SharedMemoryJSON_new name max_size False os = (Inr robj, os')"
  shows "os' = os \<and> sem_names os (sem_key name) = Some (sem robj)
     \<and> shm_names os (shm_key name) = Some (mapped_ptr robj)"
  using assms
  by (auto simp add: SharedMemoryJSON_new_def initPosix_def sem_open_def shm_open_def mmap_def
      Let_def sem_key_def shm_key_def split: option.splits if_splits)

text \<open>An object constructed with \<open>create = false\<close> and the same size sees what the owner sees.\<close>

lemma mapped_attacher: "mapped (obj\<lparr>is_creator := b\<rparr>) os = mapped obj os"
  by (simp add: mapped_def)

lemma read_ok:
  assumes "0 < sem_value w" "magic_number (header w) = MAGIC_NUMBER"
    and "version (header w) = PROTOCOL_VERSION" "data_size (header w) \<noteq> 0"
    and "unat (data_size (header w)) \<le> length (payload w)"
    and "parse (take (unat (data_size (header w))) (payload w)) = Inr V"
  shows "read parse d obj w = Inr (True, V, obj, w)"
  using assms by (simp add: read_def lock_def unlock_def)

lemma loop_times_out:
  assumes "0 < sem_value w"
    and "\<not> (magic_number (header w) = MAGIC_NUMBER \<and> 0 < data_size (header w)
             \<and> ls < sequence_number (header w))"
    and "start \<le> steady_ms w" "steady_ms w < start + unat T + 10 + L"
    and "\<forall>t. late t \<le> L" "unat T + 10 + L \<le> 2 ^ 63"
  shows "\<exists>c. readWithTimeout_loop late parse d T ls start obj w =
            Inr (False, d, obj\<lparr>last_error := ''Timeout waiting for new data''\<rparr>, w\<lparr>steady_ms := c\<rparr>)
          \<and> steady_ms w \<le> c \<and> start + unat T \<le> c \<and> c < start + unat T + 10 + L"
  using assms(1-4)
proof (induction "start + 2 ^ 63 - steady_ms w" arbitrary: w rule: less_induct)
  case less
  note eq = loop_not_ready[OF less.prems(1,2), of late parse d T start obj]
  have fit: "steady_ms w - start < 2 ^ 63"
    using less.prems(3,4) assms(6) by simp
  then have nf: "\<not> 2 ^ 63 \<le> steady_ms w - start" by simp
  note cmp = elapsed_reaches[OF fit, of T]
  show ?case
  proof (cases "unat T \<le> steady_ms w - start")
    case True
    then have "readWithTimeout_loop late parse d T ls start obj w =
        Inr (False, d, obj\<lparr>last_error := ''Timeout waiting for new data''\<rparr>, w\<lparr>steady_ms := steady_ms w\<rparr>)"
      using eq nf cmp by simp
    moreover have "start + unat T \<le> steady_ms w" using True less.prems(3) by simp
    ultimately show ?thesis using less.prems(4) by blast
  next
    case False
    let ?w = "sleep_for late 10 w"
    have l: "late (steady_ms w) \<le> L" using assms(5) by blast
    have p: "0 < sem_value ?w"
      "\<not> (magic_number (header ?w) = MAGIC_NUMBER \<and> 0 < data_size (header ?w)
             \<and> ls < sequence_number (header ?w))"
      "start \<le> steady_ms ?w" "steady_ms ?w < start + unat T + 10 + L"
      using less.prems False l by simp_all
    from less.hyps[OF sleep_decreases[OF nf] p] obtain c where
      r: "readWithTimeout_loop late parse d T ls start obj ?w =
            Inr (False, d, obj\<lparr>last_error := ''Timeout waiting for new data''\<rparr>, ?w\<lparr>steady_ms := c\<rparr>)"
      and c: "steady_ms ?w \<le> c" "start + unat T \<le> c" "c < start + unat T + 10 + L"
      by blast
    have "readWithTimeout_loop late parse d T ls start obj w =
            Inr (False, d, obj\<lparr>last_error := ''Timeout waiting for new data''\<rparr>, w\<lparr>steady_ms := c\<rparr>)"
      using eq nf cmp False r by (simp add: sleep_for_def)
    moreover have "steady_ms w \<le> c" using c(1) by simp
    ultimately show ?thesis using c(2,3) by blast
  qed
qed

text \<open>A timeout of \<open>2 ^ 63\<close> milliseconds or more is never reached.\<close>

lemma loop_never_times_out:
  assumes "0 < sem_value w"
    and "\<not> (magic_number (header w) = MAGIC_NUMBER \<and> 0 < data_size (header w)
             \<and> ls < sequence_number (header w))"
    and "2 ^ 63 \<le> unat T"
  shows "readWithTimeout_loop late parse d T ls start obj w = Inl Fault"
  using assms(1,2)
proof (induction "start + 2 ^ 63 - steady_ms w" arbitrary: w rule: less_induct)
  case less
  note eq = loop_not_ready[OF less.prems(1,2), of late parse d T start obj]
  show ?case
  proof (cases "2 ^ 63 \<le> steady_ms w - start")
    case True
    then show ?thesis using eq by simp
  next
    case False
    then have fit: "steady_ms w - start < 2 ^ 63" by simp
    have "\<not> T \<le> of_nat (steady_ms w - start)"
      using elapsed_reaches[OF fit, of T] assms(3) fit by simp
    moreover have "readWithTimeout_loop late parse d T ls start obj (sleep_for late 10 w) = Inl Fault"
      using less.prems by (intro less.hyps[OF sleep_decreases[OF False]]) simp_all
    ultimately show ?thesis using eq False by simp
  qed
qed

lemma write_times_ok:
  assumes "dump V = Inr s" "length s \<le> unat (max_data_size obj)"
    and "length s \<le> length (payload w)" "0 < sem_value w"
  shows "write_times (Suc n) dump now V obj w =
     Inr (True, obj,
          w\<lparr>header := (header w)
                \<lparr>magic_number := MAGIC_NUMBER,
                 version := PROTOCOL_VERSION,
                 data_size := of_nat (length s),
                 sequence_number := sequence_number (header w) + of_nat (Suc n),
                 timestamp := now\<rparr>,
            payload := s @ drop (length s) (payload w)\<rparr>)"
  using assms
proof (induction n arbitrary: w)
  case 0
  then show ?case by (simp add: write_json_ok)
next
  case (Suc n)
  let ?w1 = "w\<lparr>header := (header w)
                \<lparr>magic_number := MAGIC_NUMBER,
                 version := PROTOCOL_VERSION,
                 data_size := of_nat (length s),
                 sequence_number := sequence_number (header w) + 1,
                 timestamp := now\<rparr>,
            payload := s @ drop (length s) (payload w)\<rparr>"
  have w1: "write_json dump now V obj w = Inr (True, obj, ?w1)"
    using Suc.prems by (rule write_json_ok)
  have "write_times (Suc (Suc n)) dump now V obj w = write_times (Suc n) dump now V obj ?w1"
    by (simp add: w1)
  also have "\<dots> = Inr (True, obj,
          ?w1\<lparr>header := (header ?w1)
                \<lparr>magic_number := MAGIC_NUMBER,
                 version := PROTOCOL_VERSION,
                 data_size := of_nat (length s),
                 sequence_number := sequence_number (header ?w1) + of_nat (Suc n),
                 timestamp := now\<rparr>,
            payload := s @ drop (length s) (payload ?w1)\<rparr>)"
    using Suc.prems by (intro Suc.IH) simp_all
  finally show ?case by (simp add: add.assoc)
qed

subsection \<open>The timestamp is carried along\<close>

text \<open>Two states that differ only in the \<open>timestamp\<close> field.\<close>

lemma differ_only_in_timestamp:
  fixes w1 w2 :: env
  assumes "header w2 = (header w1)\<lparr>timestamp := t\<rparr>" "payload w2 = payload w1"
    and "sem_value w2 = sem_value w1" "steady_ms w2 = steady_ms w1"
  shows "w2 = with_timestamp t w1"
  using assms by (simp add: with_timestamp_def)

lemma lock_with_timestamp: "lock (with_timestamp t w) = map_sum id (with_timestamp t) (lock w)"
  by (simp add: lock_def with_timestamp_def)

lemma unlock_with_timestamp: "unlock (with_timestamp t w) = with_timestamp t (unlock w)"
  by (simp add: unlock_def with_timestamp_def)

lemma sleep_for_with_timestamp:
  "sleep_for late ms (with_timestamp t w) = with_timestamp t (sleep_for late ms w)"
  by (simp add: sleep_for_def with_timestamp_def)

lemma with_timestamp_simps [simp]:
  "magic_number (header (with_timestamp t w)) = magic_number (header w)"
  "version (header (with_timestamp t w)) = version (header w)"
  "data_size (header (with_timestamp t w)) = data_size (header w)"
  "sequence_number (header (with_timestamp t w)) = sequence_number (header w)"
  "payload (with_timestamp t w) = payload w"
  "sem_value (with_timestamp t w) = sem_value w"
  "steady_ms (with_timestamp t w) = steady_ms w"
  by (simp_all add: with_timestamp_def)

lemma read_with_timestamp:
  "read parse d obj (with_timestamp t w) =
     map_sum id (\<lambda>(ok, v, obj', w'). (ok, v, obj', with_timestamp t w')) (read parse d obj w)"
  by (cases "lock w")
     (auto simp add: read_def lock_with_timestamp unlock_with_timestamp[symmetric]
        split: sum.splits)

lemma loop_with_timestamp:
  "readWithTimeout_loop late parse d T ls start obj (with_timestamp t w) =
     map_sum id (\<lambda>(ok, v, obj', w'). (ok, v, obj', with_timestamp t w'))
       (readWithTimeout_loop late parse d T ls start obj w)"
proof (induction "start + 2 ^ 63 - steady_ms w" arbitrary: w rule: less_induct)
  case less
  show ?case
  proof (cases "sem_value w = 0")
    case True
    then show ?thesis by (simp add: loop_blocked)
  next
    case False
    then have s: "0 < sem_value w" "0 < sem_value (with_timestamp t w)" by simp_all
    show ?thesis
    proof (cases "magic_number (header w) = MAGIC_NUMBER \<and> 0 < data_size (header w)
             \<and> ls < sequence_number (header w)")
      case True
      then show ?thesis using s by (simp add: loop_ready read_with_timestamp)
    next
      case nr: False
      then have nr': "\<not> (magic_number (header (with_timestamp t w)) = MAGIC_NUMBER
             \<and> 0 < data_size (header (with_timestamp t w))
             \<and> ls < sequence_number (header (with_timestamp t w)))" by simp
      show ?thesis
      proof (cases "2 ^ 63 \<le> steady_ms w - start \<or> T \<le> of_nat (steady_ms w - start)")
        case True
        then show ?thesis
          unfolding loop_not_ready[OF s(1) nr] loop_not_ready[OF s(2) nr'] by auto
      next
        case False
        then have f: "\<not> 2 ^ 63 \<le> steady_ms w - start" by simp
        from less[OF sleep_decreases[OF f]] False show ?thesis
          unfolding loop_not_ready[OF s(1) nr] loop_not_ready[OF s(2) nr']
          by (simp add: sleep_for_with_timestamp)
      qed
    qed
  qed
qed

subsection \<open>Runs on the region \<open>R\<close>\<close>

lemma R_created: "SharedMemoryJSON_new ''R'' 4 True boot = (Inr R_obj, R_os)"
  by (simp add: R_obj_def R_os_def R_new)

lemma R_attach:
  "SharedMemoryJSON_new ''R'' 4 False R_os = (Inr (R_obj\<lparr>is_creator := False\<rparr>), R_os)"
  by (subst SharedMemoryJSON_new_attach[where s = 0 and m = 0])
     (simp_all add: R_os_eq R_obj_eq R_keys HEADER_SIZE_def page_up_def PAGE_SIZE_def)

lemma R_true_eq:
  "R_true = \<lparr>sem_value = 1,
      header = \<lparr>magic_number = MAGIC_NUMBER, version = PROTOCOL_VERSION, data_size = 4,
                sequence_number = 1, timestamp = 7, padding = replicate 32 (CHR 0x00)\<rparr>,
      payload = ''true'' @ replicate 4028 (CHR 0x00), steady_ms = 0\<rparr>"
  by (simp add: R_true_def write_json_def lock_def unlock_def R_obj_eq R_env_eq)

lemma read_R_true: "read parse_literal d obj R_true = Inr (True, boolean True, obj, R_true)"
  by (simp add: read_def lock_def unlock_def R_true_eq parse_literal_def MAGIC_NUMBER_def
      PROTOCOL_VERSION_def)

lemma readWithTimeout_R_true:
  "readWithTimeout late parse_literal d T 0 obj R_true = Inr (True, boolean True, obj, R_true)"
proof -
  have "readWithTimeout_loop late parse_literal d T 0 (steady_ms R_true) obj R_true
          = read parse_literal d obj R_true"
    by (rule loop_ready) (simp_all add: R_true_eq)
  then show ?thesis by (simp add: readWithTimeout_def read_R_true)
qed

lemma getSequenceNumber_R_true: "getSequenceNumber R_true = Inr (1, R_true)"
  by (simp add: getSequenceNumber_def lock_def unlock_def R_true_eq)

lemma write_R_env: "write_json dump_literal 7 (boolean True) R_obj R_env = Inr (True, R_obj, R_true)"
  by (simp add: R_true_eq write_json_def lock_def unlock_def R_obj_eq R_env_eq)

lemma write_false_R_true:
  "write_json dump_literal 8 (boolean False) R_obj R_true =
     Inr (False, R_obj\<lparr>last_error := ''JSON data too large for shared memory region''\<rparr>,
          R_true\<lparr>sem_value := 2\<rparr>)"
  by (simp add: write_json_def write_catch_def unlock_def R_obj_eq R_true_eq)

lemma write_null_R_true:
  "write_json dump_literal 9 null R_obj R_true =
     Inr (True, R_obj,
          R_true\<lparr>header := (header R_true)\<lparr>data_size := 4, sequence_number := 2, timestamp := 9\<rparr>,
                 payload := ''null'' @ replicate 4028 (CHR 0x00)\<rparr>)"
  by (simp add: write_json_def lock_def unlock_def R_obj_eq R_true_eq)

lemma readWithTimeout_R_true_25:
  "readWithTimeout on_time parse_literal null 25 1 R_obj R_true =
     Inr (False, null, R_obj\<lparr>last_error := ''Timeout waiting for new data''\<rparr>,
          R_true\<lparr>steady_ms := 30\<rparr>)"
  by (simp add: readWithTimeout_def loop_not_ready sleep_for_def on_time_def R_true_eq)

lemma readWithTimeout_R_true_late:
  "readWithTimeout late_by_2 parse_literal null 1 1 R_obj R_true =
     Inr (False, null, R_obj\<lparr>last_error := ''Timeout waiting for new data''\<rparr>,
          R_true\<lparr>steady_ms := 12\<rparr>)"
  by (simp add: readWithTimeout_def loop_not_ready sleep_for_def late_by_2_def R_true_eq)

lemma write_times_wrap:
  "write_times (2 ^ 64) dump_literal 7 null R_obj R_env =
     Inr (True, R_obj,
          R_env\<lparr>header := (header R_env)
                \<lparr>magic_number := MAGIC_NUMBER, version := PROTOCOL_VERSION, data_size := 4,
                 sequence_number := 0, timestamp := 7\<rparr>,
            payload := ''null'' @ replicate 4028 (CHR 0x00)\<rparr>)"
proof -
  have e: "(2::nat) ^ 64 = Suc (2 ^ 64 - 1)" by simp
  have z: "(of_nat (Suc (2 ^ 64 - 1)) :: 64 word) = 0"
    unfolding e[symmetric] by simp
  have "write_times (Suc (2 ^ 64 - 1)) dump_literal 7 null R_obj R_env =
     Inr (True, R_obj,
          R_env\<lparr>header := (header R_env)
                \<lparr>magic_number := MAGIC_NUMBER, version := PROTOCOL_VERSION,
                 data_size := of_nat (length ''null''),
                 sequence_number := sequence_number (header R_env) + of_nat (Suc (2 ^ 64 - 1)),
                 timestamp := 7\<rparr>,
            payload := ''null'' @ drop (length ''null'') (payload R_env)\<rparr>)"
    by (rule write_times_ok) (simp_all add: R_obj_eq R_env_eq)
  then show ?thesis
    unfolding z e[symmetric] by (simp add: R_env_eq)
qed

lemma R_wrapped_eq:
  "R_wrapped = \<lparr>sem_value = 1,
      header = \<lparr>magic_number = MAGIC_NUMBER, version = PROTOCOL_VERSION, data_size = 4,
                sequence_number = 0, timestamp = 7, padding = replicate 32 (CHR 0x00)\<rparr>,
      payload = ''null'' @ replicate 4028 (CHR 0x00), steady_ms = 0\<rparr>"
  unfolding R_wrapped_def write_times_wrap by (simp add: R_env_eq)

lemma R_busy_mapped:
  "mapped R_obj R_busy =
     \<lparr>sem_value = 1,
      header = \<lparr>magic_number = MAGIC_NUMBER, version = PROTOCOL_VERSION, data_size = 4,
                sequence_number = 2, timestamp = 9, padding = replicate 32 (CHR 0x00)\<rparr>,
      payload = ''null'' @ replicate 4028 (CHR 0x00), steady_ms = 0\<rparr>"
  by (simp add: mapped_def pages_def R_busy_def R_os_eq R_obj_eq header_at_def HEADER_SIZE_def
      MAGIC_NUMBER_def PROTOCOL_VERSION_def page_up_def PAGE_SIZE_def)

lemma R_busy_eq:
  "sem_names R_busy = [''sem_R'' \<mapsto> 0]" "sems R_busy = [1]"
  "shm_names R_busy = [''R'' \<mapsto> 0]" "length (shms R_busy) = 1"
  "mmap_max R_busy = 2 ^ 47"
  by (simp_all add: R_busy_def R_os_eq)

text \<open>
  Objects that attach to \<open>R\<close> on the machine where it is in use, with capacities other
  than the owner's 4 bytes: one with 2 bytes reads the 4 bytes of \<open>null\<close>, one with 100
  bytes writes the 5 bytes of \<open>false\<close> into the page.
\<close>

lemma small_attacher_reads:
  "SharedMemoryJSON_new ''R'' 2 False R_busy = (Inr (R_obj\<lparr>max_data_size := 2, total_size := 66, is_creator := False\<rparr>), R_busy)"
  "read parse_literal (boolean True) robj
      (mapped (R_obj\<lparr>max_data_size := 2, total_size := 66, is_creator := False\<rparr>) R_busy)
     = Inr (True, null, robj,
            mapped (R_obj\<lparr>max_data_size := 2, total_size := 66, is_creator := False\<rparr>) R_busy)"
proof -
  show "SharedMemoryJSON_new ''R'' 2 False R_busy = (Inr (R_obj\<lparr>max_data_size := 2, total_size := 66, is_creator := False\<rparr>), R_busy)"
    by (subst SharedMemoryJSON_new_attach[where s = 0 and m = 0])
       (simp_all add: R_keys R_busy_eq R_obj_eq HEADER_SIZE_def page_up_def PAGE_SIZE_def)
  have m: "mapped (R_obj\<lparr>max_data_size := 2, total_size := 66, is_creator := False\<rparr>) R_busy
      = mapped R_obj R_busy"
    by (simp add: mapped_def R_obj_eq page_up_def PAGE_SIZE_def)
  show "read parse_literal (boolean True) robj
      (mapped (R_obj\<lparr>max_data_size := 2, total_size := 66, is_creator := False\<rparr>) R_busy)
     = Inr (True, null, robj,
            mapped (R_obj\<lparr>max_data_size := 2, total_size := 66, is_creator := False\<rparr>) R_busy)"
    unfolding m
    by (rule read_ok)
       (simp_all add: R_busy_mapped parse_literal_def MAGIC_NUMBER_def PROTOCOL_VERSION_def)
qed

lemma large_attacher_writes:
  "\<exists>w'. write_json dump_literal 11 (boolean False)
            (R_obj\<lparr>max_data_size := 100, total_size := 164, is_creator := False\<rparr>)
            (mapped (R_obj\<lparr>max_data_size := 100, total_size := 164, is_creator := False\<rparr>) R_busy)
          = Inr (True, R_obj\<lparr>max_data_size := 100, total_size := 164, is_creator := False\<rparr>, w')
        \<and> take 5 (payload w') = ''false''"
proof -
  have m: "mapped (R_obj\<lparr>max_data_size := 100, total_size := 164, is_creator := False\<rparr>) R_busy
      = mapped R_obj R_busy"
    by (simp add: mapped_def R_obj_eq page_up_def PAGE_SIZE_def)
  have o: "unat (max_data_size (R_obj\<lparr>max_data_size := 100, total_size := 164, is_creator := False\<rparr>))
      = 100"
    by simp
  have w: "length ''false'' \<le> length (payload (mapped R_obj R_busy))"
    "0 < sem_value (mapped R_obj R_busy)"
    by (simp_all add: R_busy_mapped)
  show ?thesis
    unfolding m
    by (subst write_json_ok[where s = "''false''", OF _ _ w]) (simp_all add: o)
qed

subsection \<open>Construction under a name in use\<close>







text \<open>The empty region name: \<open>shm_open\<close> refuses the name \<open>/\<close>.\<close>

lemma empty_name_refused:
  "fst (SharedMemoryJSON_new [] 4 True boot) = Inl ''Failed to create shared memory: Invalid argument''"
  by (simp add: SharedMemoryJSON_new_def initPosix_def sem_unlink_def sem_open_excl_def
      shm_unlink_def shm_open_creat_def Let_def name_error_def object_name_def c_str_def
      NAME_MAX_def boot_def)

section \<open>The claims\<close>

text \<open>
  C1. For every value \<open>V\<close> whose serialized length is at most the capacity, \<open>write(V)\<close>
  and then \<open>read()\<close> on the same region both succeed, and \<open>read\<close> yields \<open>V\<close>. The JSON
  library is a parameter: \<open>dump\<close> gives \<open>V\<close> a text that is not empty and that \<open>parse\<close>
  reads back as \<open>V\<close>. The semaphore is free when \<open>write\<close> is called, and the mapping
  holds the capacity the writer was constructed with. The reader may be another object
  (\<open>robj\<close>) on the same region; its \<open>data\<close> parameter holds any value \<open>d\<close> before.
\<close>

theorem write_then_read:
  assumes "dump V = Inr s" "s \<noteq> []" "parse s = Inr V"
    and "length s \<le> unat (max_data_size obj)"
    and "unat (max_data_size obj) \<le> length (payload w)"
    and "0 < sem_value w"
  shows "\<exists>w'. write_json dump now V obj w = Inr (True, obj, w')
           \<and> read parse d robj w' = Inr (True, V, robj, w')"
proof -
  let ?w' = "w\<lparr>header := (header w)
                  \<lparr>magic_number := MAGIC_NUMBER,
                   version := PROTOCOL_VERSION,
                   data_size := of_nat (length s),
                   sequence_number := sequence_number (header w) + 1,
                   timestamp := now\<rparr>,
              payload := s @ drop (length s) (payload w)\<rparr>"
  have wr: "write_json dump now V obj w = Inr (True, obj, ?w')"
    using assms by (rule_tac write_json_ok) auto
  have n: "unat (of_nat (length s) :: 64 word) = length s"
    using assms(4) by (rule unat_length_fits)
  have nz: "(of_nat (length s) :: 64 word) \<noteq> 0"
    using n assms(2) by (metis length_0_conv unat_0)
  have rd: "read parse d robj ?w' = Inr (True, V, robj, ?w')"
    using assms n nz by (simp add: read_def lock_def unlock_def)
  show ?thesis using wr rd by blast
qed

theorem write_then_read_witness:
  "dump_literal (boolean True) = Inr ''true'' \<and> ''true'' \<noteq> []
   \<and> parse_literal ''true'' = Inr (boolean True)
   \<and> length ''true'' \<le> unat (max_data_size R_obj)
   \<and> unat (max_data_size R_obj) \<le> length (payload R_env)
   \<and> 0 < sem_value R_env
   \<and> (\<exists>w'. write_json dump_literal 7 (boolean True) R_obj R_env = Inr (True, R_obj, w')
           \<and> read parse_literal null R_obj w' = Inr (True, boolean True, R_obj, w'))"
  using write_then_read[of dump_literal "boolean True" "''true''" parse_literal R_obj R_env 7 null R_obj]
  by (simp add: R_obj_eq R_env_eq parse_literal_def)

text \<open>
  C2. Every call of \<open>write\<close> acquires and releases the lock in balanced pairs, on every
  exit path. The code does not: on \<open>R\<close> (capacity 4, semaphore at 1, nobody holding it)
  writing \<open>false\<close>, whose text has 5 bytes, throws at line 77 before \<open>lock()\<close> of line 80,
  and the handler's \<open>unlock()\<close> posts the semaphore, which is left at 2.
\<close>

theorem write_too_large_posts_semaphore:
  "write_json dump_literal 7 (boolean False) R_obj R_env =
     Inr (False, R_obj\<lparr>last_error := ''JSON data too large for shared memory region''\<rparr>,
          R_env\<lparr>sem_value := 2\<rparr>)
   \<and> sem_value R_env = 1"
  by (simp add: write_json_def write_catch_def unlock_def R_obj_eq R_env_eq)

text \<open>
  C3. On a freshly created region \<open>sequence_number\<close> is 0. A successful \<open>write\<close> adds
  exactly 1 to it (in \<open>uint64_t\<close> arithmetic); a failed \<open>write\<close>, \<open>read\<close>,
  \<open>readWithTimeout\<close> and \<open>getSequenceNumber\<close> leave it as it was, and
  \<open>getSequenceNumber\<close> returns it.
\<close>

theorem sequence_number_counts:
  "(SharedMemoryJSON_new name max_size True os = (Inr obj0, os0)
      \<longrightarrow> sequence_number (header (mapped obj0 os0)) = 0)
 \<and> (write_json dump now V obj w = Inr (True, obj1, w1)
      \<longrightarrow> sequence_number (header w1) = sequence_number (header w) + 1)
 \<and> (write_json dump now V obj w = Inr (False, obj2, w2)
      \<longrightarrow> sequence_number (header w2) = sequence_number (header w))
 \<and> (read parse d obj w = Inr (ok3, v3, obj3, w3)
      \<longrightarrow> sequence_number (header w3) = sequence_number (header w))
 \<and> (readWithTimeout late parse d T ls obj w = Inr (ok4, v4, obj4, w4)
      \<longrightarrow> sequence_number (header w4) = sequence_number (header w))
 \<and> (getSequenceNumber w = Inr (n, w5)
      \<longrightarrow> n = sequence_number (header w) \<and> sequence_number (header w5) = sequence_number (header w))"
proof (intro conjI impI)
  assume "SharedMemoryJSON_new name max_size True os = (Inr obj0, os0)"
  then show "sequence_number (header (mapped obj0 os0)) = 0"
    by (simp add: mapped_new)
next
  assume "write_json dump now V obj w = Inr (True, obj1, w1)"
  then show "sequence_number (header w1) = sequence_number (header w) + 1"
    by (auto dest!: write_json_cases)
next
  assume "write_json dump now V obj w = Inr (False, obj2, w2)"
  then show "sequence_number (header w2) = sequence_number (header w)"
    by (auto dest!: write_json_cases)
next
  assume "read parse d obj w = Inr (ok3, v3, obj3, w3)"
  then show "sequence_number (header w3) = sequence_number (header w)"
    by (auto dest: read_frame)
next
  assume "readWithTimeout late parse d T ls obj w = Inr (ok4, v4, obj4, w4)"
  then show "sequence_number (header w4) = sequence_number (header w)"
    unfolding readWithTimeout_def by (auto dest: loop_frame)
next
  assume "getSequenceNumber w = Inr (n, w5)"
  then show "n = sequence_number (header w)" "sequence_number (header w5) = sequence_number (header w)"
    by (auto dest: getSequenceNumber_frame)
qed

theorem sequence_number_counts_witness:
  "SharedMemoryJSON_new ''R'' 4 True boot = (Inr R_obj, R_os)
   \<and> sequence_number (header (mapped R_obj R_os)) = 0
   \<and> write_json dump_literal 7 (boolean True) R_obj R_env = Inr (True, R_obj, R_true)
   \<and> sequence_number (header R_true) = sequence_number (header R_env) + 1
   \<and> write_json dump_literal 8 (boolean False) R_obj R_true =
       Inr (False, R_obj\<lparr>last_error := ''JSON data too large for shared memory region''\<rparr>,
            R_true\<lparr>sem_value := 2\<rparr>)
   \<and> sequence_number (header (R_true\<lparr>sem_value := 2\<rparr>)) = sequence_number (header R_true)
   \<and> read parse_literal null R_obj R_true = Inr (True, boolean True, R_obj, R_true)
   \<and> readWithTimeout on_time parse_literal null 30 0 R_obj R_true
       = Inr (True, boolean True, R_obj, R_true)
   \<and> getSequenceNumber R_true = Inr (1, R_true)
   \<and> 1 = sequence_number (header R_true)"
proof -
  note c = sequence_number_counts
  have s1: "sequence_number (header (mapped R_obj R_os)) = 0"
    by (rule c[THEN conjunct1, THEN mp, OF R_created])
  have s2: "sequence_number (header R_true) = sequence_number (header R_env) + 1"
    by (rule c[THEN conjunct2, THEN conjunct1, THEN mp, OF write_R_env])
  have s3: "sequence_number (header (R_true\<lparr>sem_value := 2\<rparr>)) = sequence_number (header R_true)"
    by (rule c[THEN conjunct2, THEN conjunct2, THEN conjunct1, THEN mp, OF write_false_R_true])
  have s6: "1 = sequence_number (header R_true)"
    using c[THEN conjunct2, THEN conjunct2, THEN conjunct2, THEN conjunct2, THEN conjunct2, THEN mp,
        OF getSequenceNumber_R_true] by simp
  show ?thesis
    by (intro conjI R_created s1 write_R_env s2 write_false_R_true s3 read_R_true
        readWithTimeout_R_true getSequenceNumber_R_true s6)
qed

text \<open>
  C4. When the text of \<open>V\<close> is longer than the capacity, \<open>write(V)\<close> returns false with
  the error \<open>JSON data too large for shared memory region\<close>, and the header and the
  payload bytes are what they were, so a \<open>read\<close> that returned \<open>(ok, v)\<close> before returns
  the same after. When the text is exactly as long as the capacity (the mapping holds
  the capacity and the semaphore is free), \<open>write(V)\<close> returns true.
\<close>

theorem write_too_large:
  assumes "dump V = Inr s"
  shows "(unat (max_data_size obj) < length s \<longrightarrow>
            (\<exists>w'. write_json dump now V obj w =
                     Inr (False, obj\<lparr>last_error := ''JSON data too large for shared memory region''\<rparr>, w')
                 \<and> header w' = header w \<and> payload w' = payload w
                 \<and> (read parse d robj w = Inr (ok, v, robj', w)
                       \<longrightarrow> read parse d robj w' = Inr (ok, v, robj', w'))))
       \<and> (length s = unat (max_data_size obj) \<and> unat (max_data_size obj) \<le> length (payload w)
            \<and> 0 < sem_value w
            \<longrightarrow> (\<exists>w'. write_json dump now V obj w = Inr (True, obj, w')))"
proof (intro conjI impI)
  assume big: "unat (max_data_size obj) < length s"
  let ?w' = "w\<lparr>sem_value := Suc (sem_value w)\<rparr>"
  have wr: "write_json dump now V obj w =
      Inr (False, obj\<lparr>last_error := ''JSON data too large for shared memory region''\<rparr>, ?w')"
    using assms big by (rule write_json_too_large)
  have rd: "read parse d robj ?w' = Inr (ok, v, robj', ?w')"
    if "read parse d robj w = Inr (ok, v, robj', w)"
    using that
    by (auto simp add: read_def lock_def unlock_def split: if_splits sum.splits)
  show "\<exists>w'. write_json dump now V obj w =
                     Inr (False, obj\<lparr>last_error := ''JSON data too large for shared memory region''\<rparr>, w')
                 \<and> header w' = header w \<and> payload w' = payload w
                 \<and> (read parse d robj w = Inr (ok, v, robj', w)
                       \<longrightarrow> read parse d robj w' = Inr (ok, v, robj', w'))"
    using wr rd by (intro exI[of _ ?w']) simp
next
  assume "length s = unat (max_data_size obj) \<and> unat (max_data_size obj) \<le> length (payload w)
            \<and> 0 < sem_value w"
  then show "\<exists>w'. write_json dump now V obj w = Inr (True, obj, w')"
    using assms write_json_ok[of dump V s obj w now] by simp
qed

theorem write_too_large_witness:
  "dump_literal (boolean False) = Inr ''false''
   \<and> unat (max_data_size R_obj) < length ''false''
   \<and> (\<exists>w'. write_json dump_literal 8 (boolean False) R_obj R_true =
              Inr (False, R_obj\<lparr>last_error := ''JSON data too large for shared memory region''\<rparr>, w')
          \<and> header w' = header R_true \<and> payload w' = payload R_true
          \<and> read parse_literal null R_obj R_true = Inr (True, boolean True, R_obj, R_true)
          \<and> read parse_literal null R_obj w' = Inr (True, boolean True, R_obj, w'))
   \<and> dump_literal null = Inr ''null''
   \<and> length ''null'' = unat (max_data_size R_obj)
   \<and> unat (max_data_size R_obj) \<le> length (payload R_true)
   \<and> 0 < sem_value R_true
   \<and> (\<exists>w'. write_json dump_literal 9 null R_obj R_true = Inr (True, R_obj, w'))"
  using write_too_large[of dump_literal "boolean False" "''false''" R_obj 8 R_true parse_literal null
      R_obj True "boolean True" R_obj]
    write_too_large[of dump_literal null "''null''" R_obj 9 R_true]
    read_R_true[of null R_obj]
  by (simp add: R_obj_eq R_true_eq)

text \<open>
  C5. \<open>read\<close> on a region that was created and never written returns false with the
  error \<open>Invalid magic number - shared memory not initialized\<close>, and leaves \<open>data\<close> as it
  was: the created region is zeroed, so its magic number is not \<open>MAGIC_NUMBER\<close>. This
  holds for the owner's object and for every object that attaches to the region (with
  \<open>create = false\<close>, whatever size it gives).
\<close>

theorem read_before_write:
  assumes "SharedMemoryJSON_new name max_size True os = (Inr obj, os')"
  shows "read parse d obj (mapped obj os') =
           Inr (False, d, obj\<lparr>last_error := ''Invalid magic number - shared memory not initialized''\<rparr>,
                mapped obj os')
       \<and> (SharedMemoryJSON_new name max_size2 False os' = (Inr robj, os'') \<longrightarrow>
            read parse d robj (mapped robj os'') =
              Inr (False, d, robj\<lparr>last_error := ''Invalid magic number - shared memory not initialized''\<rparr>,
                   mapped robj os''))"
proof (intro conjI impI)
  show "read parse d obj (mapped obj os') =
           Inr (False, d, obj\<lparr>last_error := ''Invalid magic number - shared memory not initialized''\<rparr>,
                mapped obj os')"
    by (rule read_uninitialized) (simp_all add: mapped_new[OF assms] MAGIC_NUMBER_def)
next
  assume a: "SharedMemoryJSON_new name max_size2 False os' = (Inr robj, os'')"
  note os' = SharedMemoryJSON_new_created(2)[OF assms]
  from SharedMemoryJSON_new_attached[OF a]
  have r: "os'' = os'" "sem robj = length (sems os)" "mapped_ptr robj = length (shms os)"
    by (simp_all add: os')
  have "sem_value (mapped robj os'') = 1"
    "magic_number (header (mapped robj os'')) = 0"
    by (simp_all add: r mapped_def os' pages_zeros header_at_zeros)
  then show "read parse d robj (mapped robj os'') =
              Inr (False, d, robj\<lparr>last_error := ''Invalid magic number - shared memory not initialized''\<rparr>,
                   mapped robj os'')"
    by (intro read_uninitialized) (simp_all add: MAGIC_NUMBER_def)
qed

theorem read_before_write_witness:
  "SharedMemoryJSON_new ''R'' 4 True boot = (Inr R_obj, R_os)
   \<and> read parse_literal (boolean False) R_obj R_env =
     Inr (False, boolean False,
          R_obj\<lparr>last_error := ''Invalid magic number - shared memory not initialized''\<rparr>, R_env)
   \<and> SharedMemoryJSON_new ''R'' 4 False R_os = (Inr (R_obj\<lparr>is_creator := False\<rparr>), R_os)
   \<and> read parse_literal (boolean False) (R_obj\<lparr>is_creator := False\<rparr>)
         (mapped (R_obj\<lparr>is_creator := False\<rparr>) R_os) =
     Inr (False, boolean False,
          R_obj\<lparr>is_creator := False,
                last_error := ''Invalid magic number - shared memory not initialized''\<rparr>,
          mapped (R_obj\<lparr>is_creator := False\<rparr>) R_os)"
  using read_before_write[OF R_created, of parse_literal "boolean False" 4
      "R_obj\<lparr>is_creator := False\<rparr>" R_os] R_created R_attach
  by (simp add: R_env_def)

text \<open>
  C8. Whenever \<open>read\<close>, \<open>readWithTimeout\<close> or \<open>getSequenceNumber\<close> returns, the header
  (magic, version, data_size, sequence_number, timestamp, padding) and the payload bytes
  are what they were before the call. A successful \<open>write\<close> changes the header.
\<close>

theorem readers_leave_region:
  "(read parse d obj w = Inr (ok1, v1, obj1, w1) \<longrightarrow> header w1 = header w \<and> payload w1 = payload w)
 \<and> (readWithTimeout late parse d T ls obj w = Inr (ok2, v2, obj2, w2)
       \<longrightarrow> header w2 = header w \<and> payload w2 = payload w)
 \<and> (getSequenceNumber w = Inr (n, w3) \<longrightarrow> header w3 = header w \<and> payload w3 = payload w)
 \<and> (write_json dump now V obj w = Inr (True, obj4, w4) \<longrightarrow> header w4 \<noteq> header w)"
proof (intro conjI impI)
  assume "read parse d obj w = Inr (ok1, v1, obj1, w1)"
  then have "w1 = w" by (rule read_frame)
  then show "header w1 = header w" "payload w1 = payload w" by simp_all
next
  assume "readWithTimeout late parse d T ls obj w = Inr (ok2, v2, obj2, w2)"
  then show "header w2 = header w" "payload w2 = payload w"
    unfolding readWithTimeout_def by (auto dest: loop_frame)
next
  assume "getSequenceNumber w = Inr (n, w3)"
  then show "header w3 = header w" "payload w3 = payload w"
    by (auto dest: getSequenceNumber_frame)
next
  assume "write_json dump now V obj w = Inr (True, obj4, w4)"
  then have "sequence_number (header w4) = sequence_number (header w) + 1"
    by (auto dest!: write_json_cases)
  then show "header w4 \<noteq> header w" by auto
qed

theorem readers_leave_region_witness:
  "read parse_literal null R_obj R_true = Inr (True, boolean True, R_obj, R_true)
   \<and> readWithTimeout on_time parse_literal null 30 0 R_obj R_true
       = Inr (True, boolean True, R_obj, R_true)
   \<and> getSequenceNumber R_true = Inr (1, R_true)
   \<and> write_json dump_literal 9 null R_obj R_true =
       Inr (True, R_obj,
            R_true\<lparr>header := (header R_true)\<lparr>data_size := 4, sequence_number := 2, timestamp := 9\<rparr>,
                   payload := ''null'' @ replicate 4028 (CHR 0x00)\<rparr>)
   \<and> header (R_true\<lparr>header := (header R_true)\<lparr>data_size := 4, sequence_number := 2, timestamp := 9\<rparr>,
                   payload := ''null'' @ replicate 4028 (CHR 0x00)\<rparr>) \<noteq> header R_true"
  using readers_leave_region[of parse_literal null R_obj R_true True "boolean True" R_obj R_true
      on_time 30 0 True "boolean True" R_obj R_true 1 R_true dump_literal 9 null R_obj
      "R_true\<lparr>header := (header R_true)\<lparr>data_size := 4, sequence_number := 2, timestamp := 9\<rparr>,
                   payload := ''null'' @ replicate 4028 (CHR 0x00)\<rparr>"]
    read_R_true readWithTimeout_R_true getSequenceNumber_R_true write_null_R_true
  by simp

text \<open>
  C6 (as amended). After a successful \<open>write(V)\<close> that leaves \<open>sequence_number\<close> different
  from 0, \<open>readWithTimeout\<close> with \<open>lastSeq = 0\<close> succeeds in its first iteration for
  every timeout, without sleeping (the steady clock is where it was), and returns \<open>V\<close>.
  The JSON library is a parameter, as for C1.
\<close>

theorem readWithTimeout_zero_after_write:
  assumes "write_json dump now V obj w = Inr (True, obj', w')"
    and "dump V = Inr s" "s \<noteq> []" "parse s = Inr V"
    and "sequence_number (header w') \<noteq> 0"
  shows "readWithTimeout late parse d T 0 robj w' = Inr (True, V, robj, w')"
proof -
  from write_json_cases[OF assms(1)] assms(2)
  have sem: "0 < sem_value w'"
    and fit: "length s \<le> unat (max_data_size obj)" "length s \<le> length (payload w)"
    and hd: "header w' = (header w)\<lparr>magic_number := MAGIC_NUMBER, version := PROTOCOL_VERSION,
                    data_size := of_nat (length s),
                    sequence_number := sequence_number (header w) + 1, timestamp := now\<rparr>"
    and pl: "payload w' = s @ drop (length s) (payload w)"
    by auto
  have n: "unat (data_size (header w')) = length s"
    using fit(1) by (simp add: hd unat_length_fits)
  have nz: "data_size (header w') \<noteq> 0"
    using n assms(3) by (metis length_0_conv unat_0)
  have rd: "read parse d robj w' = Inr (True, V, robj, w')"
    using sem nz n assms(4) fit(2) by (intro read_ok) (simp_all add: hd pl)
  have "readWithTimeout_loop late parse d T 0 (steady_ms w') robj w' = read parse d robj w'"
    using sem nz assms(5) by (intro loop_ready) (simp_all add: hd word_neq_0_conv)
  then show ?thesis by (simp add: readWithTimeout_def rd)
qed

theorem readWithTimeout_zero_after_write_witness:
  "write_json dump_literal 7 (boolean True) R_obj R_env = Inr (True, R_obj, R_true)
   \<and> dump_literal (boolean True) = Inr ''true'' \<and> ''true'' \<noteq> []
   \<and> parse_literal ''true'' = Inr (boolean True)
   \<and> sequence_number (header R_true) \<noteq> 0
   \<and> readWithTimeout on_time parse_literal null 0 0 R_obj R_true
        = Inr (True, boolean True, R_obj, R_true)"
proof -
  have h: "dump_literal (boolean True) = Inr ''true''" "''true'' \<noteq> []"
    "parse_literal ''true'' = Inr (boolean True)" "sequence_number (header R_true) \<noteq> 0"
    by (simp_all add: parse_literal_def R_true_eq)
  from readWithTimeout_zero_after_write[of dump_literal 7 "boolean True" R_obj R_env R_obj R_true
      "''true''" parse_literal on_time null 0 R_obj] write_R_env h
  show ?thesis by blast
qed

text \<open>
  C6 as stated fails when the counter has wrapped: after \<open>2 ^ 64\<close> successful writes to \<open>R\<close>
  the region holds \<open>null\<close>, \<open>read\<close> returns it, \<open>sequence_number\<close> is 0 again, and
  \<open>readWithTimeout\<close> with \<open>lastSeq = 0\<close> and a timeout of 25 ms sleeps three times and
  fails with the timeout error.
\<close>

theorem lastSeq_zero_after_wrap:
  "write_times (2 ^ 64) dump_literal 7 null R_obj R_env = Inr (True, R_obj, R_wrapped)
   \<and> read parse_literal (boolean False) R_obj R_wrapped = Inr (True, null, R_obj, R_wrapped)
   \<and> readWithTimeout on_time parse_literal (boolean False) 25 0 R_obj R_wrapped =
        Inr (False, boolean False, R_obj\<lparr>last_error := ''Timeout waiting for new data''\<rparr>,
             R_wrapped\<lparr>steady_ms := 30\<rparr>)"
proof (intro conjI)
  show "write_times (2 ^ 64) dump_literal 7 null R_obj R_env = Inr (True, R_obj, R_wrapped)"
    unfolding write_times_wrap R_wrapped_eq by (simp add: R_env_eq)
  show "read parse_literal (boolean False) R_obj R_wrapped = Inr (True, null, R_obj, R_wrapped)"
    by (rule read_ok)
       (simp_all add: R_wrapped_eq parse_literal_def MAGIC_NUMBER_def PROTOCOL_VERSION_def)
  show "readWithTimeout on_time parse_literal (boolean False) 25 0 R_obj R_wrapped =
        Inr (False, boolean False, R_obj\<lparr>last_error := ''Timeout waiting for new data''\<rparr>,
             R_wrapped\<lparr>steady_ms := 30\<rparr>)"
    by (simp add: readWithTimeout_def loop_not_ready sleep_for_def on_time_def R_wrapped_eq)
qed

text \<open>
  C7 (as amended). When \<open>lastSeq\<close> is the region's sequence number and nothing is
  written meanwhile, every \<open>sleep_for\<close> returns at most \<open>L\<close> milliseconds late and
  \<open>T + 10 + L\<close> fits the signed 64-bit count of milliseconds, \<open>readWithTimeout(T, lastSeq)\<close>
  returns false with the error \<open>Timeout waiting for new data\<close> and leaves \<open>data\<close> as it
  was. On the steady clock it returns no earlier than \<open>T\<close> milliseconds and less than
  \<open>T + 10 + L\<close> milliseconds after it started.
\<close>

theorem readWithTimeout_times_out:
  assumes "0 < sem_value w" and "last_seq = sequence_number (header w)"
    and "\<forall>t. late t \<le> L" and "unat T + 10 + L \<le> 2 ^ 63"
  shows "\<exists>c. readWithTimeout late parse d T last_seq obj w =
            Inr (False, d, obj\<lparr>last_error := ''Timeout waiting for new data''\<rparr>, w\<lparr>steady_ms := c\<rparr>)
          \<and> steady_ms w + unat T \<le> c
          \<and> c < steady_ms w + unat T + 10 + L"
proof -
  have nr: "\<not> (magic_number (header w) = MAGIC_NUMBER \<and> 0 < data_size (header w)
             \<and> last_seq < sequence_number (header w))"
    using assms(2) by simp
  have "steady_ms w < steady_ms w + unat T + 10 + L" by simp
  from loop_times_out[OF assms(1) nr order_refl this assms(3,4), of parse d obj]
  show ?thesis unfolding readWithTimeout_def by auto
qed

theorem readWithTimeout_times_out_witness:
  "0 < sem_value R_true \<and> 1 = sequence_number (header R_true)
   \<and> (\<forall>t. late_by_2 t \<le> 2) \<and> unat (1 :: 64 word) + 10 + 2 \<le> (2 :: nat) ^ 63
   \<and> readWithTimeout late_by_2 parse_literal null 1 1 R_obj R_true =
        Inr (False, null, R_obj\<lparr>last_error := ''Timeout waiting for new data''\<rparr>,
             R_true\<lparr>steady_ms := 12\<rparr>)
   \<and> (\<exists>c. readWithTimeout late_by_2 parse_literal null 1 1 R_obj R_true =
            Inr (False, null, R_obj\<lparr>last_error := ''Timeout waiting for new data''\<rparr>,
                 R_true\<lparr>steady_ms := c\<rparr>)
          \<and> steady_ms R_true + unat (1 :: 64 word) \<le> c
          \<and> c < steady_ms R_true + unat (1 :: 64 word) + 10 + 2)"
proof -
  have h: "0 < sem_value R_true" "1 = sequence_number (header R_true)"
    "\<forall>t. late_by_2 t \<le> 2" "unat (1 :: 64 word) + 10 + 2 \<le> (2 :: nat) ^ 63"
    by (simp_all add: R_true_eq late_by_2_def)
  from readWithTimeout_times_out[OF h, of parse_literal null R_obj]
  have "\<exists>c. readWithTimeout late_by_2 parse_literal null 1 1 R_obj R_true =
            Inr (False, null, R_obj\<lparr>last_error := ''Timeout waiting for new data''\<rparr>,
                 R_true\<lparr>steady_ms := c\<rparr>)
          \<and> steady_ms R_true + unat (1 :: 64 word) \<le> c
          \<and> c < steady_ms R_true + unat (1 :: 64 word) + 10 + 2"
    by blast
  then show ?thesis using h readWithTimeout_R_true_late by blast
qed

text \<open>
  C7 as stated fails in two ways. When every sleep returns 2 milliseconds late, the
  call with \<open>T = 1\<close> on \<open>R\<close> (sequence number 1, \<open>lastSeq = 1\<close>) returns at 12 ms, later
  than \<open>T + 10\<close>. And with \<open>T = 2 ^ 63\<close> the call never returns the timeout failure,
  even when every sleep returns on time: the signed count of elapsed milliseconds
  cannot reach \<open>T\<close>.
\<close>

theorem late_sleep_exceeds_poll_interval:
  "sequence_number (header R_true) = 1
   \<and> readWithTimeout late_by_2 parse_literal null 1 1 R_obj R_true =
        Inr (False, null, R_obj\<lparr>last_error := ''Timeout waiting for new data''\<rparr>,
             R_true\<lparr>steady_ms := 12\<rparr>)
   \<and> steady_ms R_true = 0
   \<and> \<not> (12 :: nat) \<le> 0 + unat (1 :: 64 word) + 10
   \<and> readWithTimeout on_time parse_literal null (2 ^ 63) 1 R_obj R_true = Inl Fault"
proof (intro conjI)
  show "readWithTimeout on_time parse_literal null (2 ^ 63) 1 R_obj R_true = Inl Fault"
    unfolding readWithTimeout_def
    by (rule loop_never_times_out) (simp_all add: R_true_eq)
qed (simp_all add: readWithTimeout_R_true_late, simp_all add: R_true_eq)

text \<open>
  C9. Two states of the region that differ only in the \<open>timestamp\<close> field give the same
  results: \<open>read\<close> and \<open>readWithTimeout\<close> return the same flag, the same value and the same
  \<open>last_error_\<close> (or block or fault alike), and \<open>getSequenceNumber\<close> returns the same number.
\<close>

theorem timestamp_noninterference:
  "returned (read parse d obj (with_timestamp t w)) = returned (read parse d obj w)
 \<and> returned (readWithTimeout late parse d T ls obj (with_timestamp t w))
     = returned (readWithTimeout late parse d T ls obj w)
 \<and> map_sum id fst (getSequenceNumber (with_timestamp t w)) = map_sum id fst (getSequenceNumber w)"
proof (intro conjI)
  show "returned (read parse d obj (with_timestamp t w)) = returned (read parse d obj w)"
    by (cases "read parse d obj w") (auto simp add: returned_def read_with_timestamp)
  show "returned (readWithTimeout late parse d T ls obj (with_timestamp t w))
     = returned (readWithTimeout late parse d T ls obj w)"
    by (cases "readWithTimeout_loop late parse d T ls (steady_ms w) obj w")
       (auto simp add: returned_def readWithTimeout_def loop_with_timestamp)
  show "map_sum id fst (getSequenceNumber (with_timestamp t w)) = map_sum id fst (getSequenceNumber w)"
    by (cases "lock w") (auto simp add: getSequenceNumber_def lock_with_timestamp)
qed




end
